theory Spec2Isabelle
  imports Complex_Main
begin

section \<open>The MNIST experiment manager of boilr's example\<close>

text \<open>
  A shallow embedding of \<^verbatim>\<open>experiments/mnist_experiment/experiment_manager.py\<close>:
  the class \<^verbatim>\<open>MnistExperiment\<close> with its methods \<^verbatim>\<open>forward_pass\<close>,
  \<^verbatim>\<open>additional_testing\<close>, \<^verbatim>\<open>save_input_and_recons\<close>, \<^verbatim>\<open>_parse_args\<close> and
  \<^verbatim>\<open>_make_run_description\<close>.

  The file is glue over collaborators that live outside the repository: the
  tensor library, the image writer, the argument parser, the model and the data
  loader. What the methods need of them is modelled here as follows.
  \<^item> A tensor is its shape and its entries in row-major order, plus the device it
    lives on. The entries have an arbitrary type \<open>'a\<close>: no theorem below depends
    on how numbers are represented or rounded.
  \<^item> The reductions \<^verbatim>\<open>Tensor.mean()\<close> and unary minus, boilr's
    \<^verbatim>\<open>img_grid_pad_value\<close> and torchvision's \<^verbatim>\<open>save_image\<close> are parameters (the
    record \<open>torch\<close>); the last two may raise.
  \<^item> The model is a parameter too. Its methods may read and change hidden state
    (random number generator, buffers), so they take a state and return the next
    one; they may raise.
  \<^item> Every Python exception is a value of \<open>py_error\<close>, and a method that can
    raise returns \<open>py_error + result\<close>.
  \<^item> A call of \<^verbatim>\<open>save_image\<close> that does not raise appends one entry to the log of
    files written; one that raises leaves the log as it was.
\<close>

subsection \<open>Exceptions\<close>

text \<open>The exceptions the methods raise themselves or meet in the tensor library;
  \<open>CollaboratorError\<close> stands for any other exception of a collaborator.\<close>

datatype py_error =
    KeyError string
  | IndexError
  | RuntimeError string
  | StopIteration
  | ZeroDivisionError
  | AssertionError
  | FileNotFoundError string
  | CollaboratorError string

subsection \<open>Integers as text\<close>

text \<open>Python's \<^verbatim>\<open>str(i)\<close> and \<^verbatim>\<open>'{}'.format(i)\<close> for an integer: decimal digits, a
  leading minus sign for a negative number.\<close>

fun str_nat :: "nat \<Rightarrow> string" where
  "str_nat n =
     (if n < 10 then [''0123456789'' ! n]
      else str_nat (n div 10) @ [''0123456789'' ! (n mod 10)])"

declare str_nat.simps [simp del]

definition str_int :: "int \<Rightarrow> string" where
  "str_int i = (if i < 0 then CHR ''-'' # str_nat (nat (- i)) else str_nat (nat i))"

text \<open>What a decimal numeral denotes, read off the text itself and not through the
  printing above: digits, the most significant first, with a minus sign before a
  negative number. The empty text, a numeral with a superfluous leading zero and
  \<^verbatim>\<open>-0\<close> denote nothing.\<close>

definition digit_of :: "char \<Rightarrow> nat option" where
  "digit_of ch =
     (if ch = CHR ''0'' then Some 0 else if ch = CHR ''1'' then Some 1
      else if ch = CHR ''2'' then Some 2 else if ch = CHR ''3'' then Some 3
      else if ch = CHR ''4'' then Some 4 else if ch = CHR ''5'' then Some 5
      else if ch = CHR ''6'' then Some 6 else if ch = CHR ''7'' then Some 7
      else if ch = CHR ''8'' then Some 8 else if ch = CHR ''9'' then Some 9
      else None)"

fun digits_value :: "nat \<Rightarrow> string \<Rightarrow> nat option" where
  "digits_value acc [] = Some acc"
| "digits_value acc (ch # cs) =
     (case digit_of ch of None \<Rightarrow> None | Some d \<Rightarrow> digits_value (10 * acc + d) cs)"

definition canonical_digits :: "string \<Rightarrow> bool" where
  "canonical_digits ds = (ds \<noteq> [] \<and> (hd ds = CHR ''0'' \<longrightarrow> ds = ''0''))"

definition numeral_value :: "string \<Rightarrow> int option" where
  "numeral_value s =
     (case s of
        [] \<Rightarrow> None
      | ch # cs \<Rightarrow>
          if ch = CHR ''-''
          then (if canonical_digits cs \<and> cs \<noteq> ''0''
                then map_option (\<lambda>v. - int v) (digits_value 0 cs) else None)
          else (if canonical_digits s then map_option int (digits_value 0 s) else None))"

subsection \<open>Tensors\<close>

datatype torch_device = CPU | CUDA

record 'a tensor =
  shape :: "nat list"
  data :: "'a list"
  dev :: torch_device

text \<open>The number of entries a shape asks for; a tensor of the library always holds
  exactly that many.\<close>

definition numel :: "nat list \<Rightarrow> nat" where
  "numel sh = prod_list sh"

definition wf_tensor :: "'a tensor \<Rightarrow> bool" where
  "wf_tensor t = (length (data t) = numel (shape t))"

text \<open>\<^verbatim>\<open>t.to(device)\<close> and \<^verbatim>\<open>t.cpu()\<close>: the same entries on another device.\<close>

definition to_device :: "'a tensor \<Rightarrow> torch_device \<Rightarrow> 'a tensor" where
  "to_device t d = t\<lparr>dev := d\<rparr>"

definition cpu :: "'a tensor \<Rightarrow> 'a tensor" where
  "cpu t = to_device t CPU"

text \<open>\<^verbatim>\<open>t.shape[0]\<close> and \<^verbatim>\<open>t.size(k)\<close>: an index past the last dimension raises
  IndexError.\<close>

definition size_at :: "'a tensor \<Rightarrow> nat \<Rightarrow> py_error + nat" where
  "size_at t k = (if k < length (shape t) then Inr (shape t ! k) else Inl IndexError)"

text \<open>\<^verbatim>\<open>t[:k]\<close> for \<open>k \<ge> 0\<close>: the first \<open>k\<close> slices along dimension 0 (all of them
  when there are fewer). Slicing a 0-dimensional tensor raises IndexError.\<close>

definition slice_to :: "'a tensor \<Rightarrow> nat \<Rightarrow> py_error + 'a tensor" where
  "slice_to t k =
     (case shape t of
        [] \<Rightarrow> Inl IndexError
      | s0 # rest \<Rightarrow>
          Inr (t\<lparr>shape := min k s0 # rest,
                 data := take (min k s0 * numel rest) (data t)\<rparr>))"


text \<open>\<^verbatim>\<open>torch.stack([a, b])\<close>: a new leading dimension of size 2. The two tensors must
  have the same shape and live on the same device.\<close>

definition stack2 :: "'a tensor \<Rightarrow> 'a tensor \<Rightarrow> py_error + 'a tensor" where
  "stack2 a b =
     (if shape a \<noteq> shape b
      then Inl (RuntimeError ''stack expects each tensor to be equal size'')
      else if dev a \<noteq> dev b
      then Inl (RuntimeError ''Expected all tensors to be on the same device'')
      else Inr \<lparr>shape = 2 # shape a, data = data a @ data b, dev = dev a\<rparr>)"

text \<open>\<^verbatim>\<open>t.permute(1, 0, 2, 3, 4)\<close>: swaps the first two of five dimensions. Entry
  \<open>(i1, i0, r)\<close> of the result is entry \<open>(i0, i1, r)\<close> of \<open>t\<close>, where \<open>r\<close> runs over
  the last three dimensions. Any other number of dimensions raises.\<close>

definition permute_10234 :: "'a tensor \<Rightarrow> py_error + 'a tensor" where
  "permute_10234 t =
     (case shape t of
        [s0, s1, s2, s3, s4] \<Rightarrow>
          (let inner = s2 * s3 * s4 in
           Inr (t\<lparr>shape := [s1, s0, s2, s3, s4],
                   data := map (\<lambda>k. data t !
                                  ((((k div inner) mod s0) * s1 + k div (s0 * inner)) * inner
                                   + k mod inner))
                               [0 ..< s1 * s0 * inner]\<rparr>))
      | _ \<Rightarrow> Inl (RuntimeError ''number of dims does not match in permute''))"

text \<open>\<^verbatim>\<open>t.reshape(sh)\<close>: the same entries in the same order under a new shape, which
  must ask for as many entries as \<open>t\<close> has.\<close>

definition reshape :: "'a tensor \<Rightarrow> nat list \<Rightarrow> py_error + 'a tensor" where
  "reshape t sh =
     (if numel sh = length (data t) then Inr (t\<lparr>shape := sh\<rparr>)
      else Inl (RuntimeError ''shape is invalid for input size''))"

text \<open>The library calls that are taken as they come: \<^verbatim>\<open>t.mean()\<close>, \<^verbatim>\<open>- t\<close>,
  boilr's \<^verbatim>\<open>img_grid_pad_value(t)\<close>, which returns the padding value or raises, and
  torchvision's \<^verbatim>\<open>save_image(t, fname, nrow=n, pad_value=p)\<close>, of which
  \<open>tv_save_image\<close> gives the exception it raises, if any, on the file system at
  hand.\<close>

record 'a torch =
  t_mean :: "'a tensor \<Rightarrow> 'a tensor"
  t_neg :: "'a tensor \<Rightarrow> 'a tensor"
  img_grid_pad_value :: "'a tensor \<Rightarrow> py_error + 'a"
  tv_save_image :: "'a tensor \<Rightarrow> string \<Rightarrow> nat \<Rightarrow> 'a \<Rightarrow> py_error option"

subsection \<open>Dictionaries\<close>

type_synonym 'a pydict = "string \<rightharpoonup> 'a tensor"

text \<open>\<^verbatim>\<open>d[k]\<close> raises KeyError for a missing key.\<close>

definition getitem :: "'a pydict \<Rightarrow> string \<Rightarrow> py_error + 'a tensor" where
  "getitem d k = (case d k of None \<Rightarrow> Inl (KeyError k) | Some v \<Rightarrow> Inr v)"

subsection \<open>Collaborators and state\<close>

text \<open>The model: \<^verbatim>\<open>model(x)\<close>, \<^verbatim>\<open>model.sample_prior(k)\<close>, the counter
  \<^verbatim>\<open>model.global_step\<close> and \<^verbatim>\<open>model.parameters()\<close> (what \<^verbatim>\<open>make_optimizer\<close> hands
  to the optimizer). \<open>'s\<close> is everything the model holds: parameters, buffers, the
  state of its random number generator.\<close>

record ('s, 'a) model =
  forward :: "'s \<Rightarrow> 'a tensor \<Rightarrow> (py_error + 'a pydict) \<times> 's"
  sample_prior :: "'s \<Rightarrow> nat \<Rightarrow> (py_error + 'a tensor) \<times> 's"
  global_step :: "'s \<Rightarrow> int"
  parameters :: "'s \<Rightarrow> 'a tensor list"

text \<open>The attributes of \<^verbatim>\<open>args\<close>: the integer and string options that \<^verbatim>\<open>_parse_args\<close>
  declares, and \<^verbatim>\<open>additional_descr\<close> and \<^verbatim>\<open>dry_run\<close>, which the library's own parser
  adds. The float-valued options \<^verbatim>\<open>lr\<close> and \<^verbatim>\<open>weight_decay\<close> are only handed to the
  optimizer and are left out.\<close>

record args =
  batch_size :: int
  test_batch_size :: int
  seed :: int
  train_log_every :: int
  test_log_every :: int
  checkpoint_every :: int
  resume :: string
  loglikelihood_every :: int
  loglikelihood_samples :: int
  additional_descr :: string
  dry_run :: bool

text \<open>The experiment object \<^verbatim>\<open>self\<close>. \<^verbatim>\<open>self.dataloaders.test\<close> is the sequence of
  its batches \<^verbatim>\<open>(x, y)\<close>.\<close>

record ('s, 'a) mnist_experiment =
  args :: args
  device :: torch_device
  model :: "('s, 'a) model"
  dataloaders_test :: "('a tensor \<times> 'a tensor) list"

text \<open>One file written by \<^verbatim>\<open>save_image(imgs, fname, nrow=n, pad_value=pad)\<close>.\<close>

record 'a image_file =
  fname :: string
  imgs :: "'a tensor"
  nrow :: nat
  pad_value :: 'a

text \<open>What a method can change: the model's state and the files written so far,
  oldest first.\<close>

record ('s, 'a) world =
  model_state :: 's
  written :: "'a image_file list"

text \<open>\<^verbatim>\<open>save_image(t, f, nrow=n, pad_value=p)\<close>: the file is written unless the call
  raises.\<close>

definition save_image ::
  "'a torch \<Rightarrow> 'a tensor \<Rightarrow> string \<Rightarrow> nat \<Rightarrow> 'a \<Rightarrow> ('s, 'a) world
     \<Rightarrow> (py_error + unit) \<times> ('s, 'a) world" where
  "save_image lib t f n p w =
     (case tv_save_image lib t f n p of
        Some e \<Rightarrow> (Inl e, w)
      | None \<Rightarrow>
          (Inr (), w\<lparr>written := written w @
                                  [\<lparr>fname = f, imgs = t, nrow = n, pad_value = p\<rparr>]\<rparr>))"

text \<open>\<^verbatim>\<open>os.path.join(a, b)\<close> on POSIX.\<close>

definition path_join :: "string \<Rightarrow> string \<Rightarrow> string" where
  "path_join a b =
     (if take 1 b = ''/'' then b
      else if a = [] \<or> last a = CHR ''/'' then a @ b
      else a @ ''/'' @ b)"

subsection \<open>forward_pass\<close>

definition forward_pass ::
  "'a torch \<Rightarrow> ('s, 'a) mnist_experiment \<Rightarrow> 'a tensor \<Rightarrow> ('s, 'a) world
     \<Rightarrow> (py_error + 'a pydict) \<times> ('s, 'a) world" where
  "forward_pass lib self x w =
     (let x = to_device x (device self) in
      case forward (model self) (model_state w) x of
        (Inl e, s) \<Rightarrow> (Inl e, w\<lparr>model_state := s\<rparr>)
      | (Inr out, s) \<Rightarrow>
          (let w' = w\<lparr>model_state := s\<rparr> in
           case getitem out ''elbo'' of
             Inl e \<Rightarrow> (Inl e, w')
           | Inr elbo_sep \<Rightarrow>
               (let elbo = t_mean lib elbo_sep;
                    loss = t_neg lib elbo
                in
                case getitem out ''sample'' of
                  Inl e \<Rightarrow> (Inl e, w')
                | Inr out_sample \<Rightarrow>
               (case getitem out ''mean'' of
                  Inl e \<Rightarrow> (Inl e, w')
                | Inr out_mean \<Rightarrow>
               (case getitem out ''nll'' of
                  Inl e \<Rightarrow> (Inl e, w')
                | Inr nll \<Rightarrow>
               (case getitem out ''kl'' of
                  Inl e \<Rightarrow> (Inl e, w')
                | Inr kl \<Rightarrow>
                    (Inr [''out_sample'' \<mapsto> out_sample,
                          ''out_mean'' \<mapsto> out_mean,
                          ''loss'' \<mapsto> loss,
                          ''elbo_sep'' \<mapsto> elbo_sep,
                          ''elbo/elbo'' \<mapsto> elbo,
                          ''elbo/recons'' \<mapsto> t_mean lib nll,
                          ''elbo/kl'' \<mapsto> t_mean lib kl], w')))))))"

subsection \<open>save_input_and_recons\<close>

definition required_msg :: "nat \<Rightarrow> nat \<Rightarrow> string" where
  "required_msg n_img b =
     str_int (int n_img) @ '' data points required, but given batch has size ''
       @ str_int (int b) @ ''. Please use a larger batch.''"

text \<open>\<open>n\<close> is the side of the grid, a count: the only caller passes 8.\<close>

definition save_input_and_recons ::
  "'a torch \<Rightarrow> ('s, 'a) mnist_experiment \<Rightarrow> 'a tensor \<Rightarrow> string \<Rightarrow> nat \<Rightarrow> ('s, 'a) world
     \<Rightarrow> (py_error + unit) \<times> ('s, 'a) world" where
  "save_input_and_recons lib self x f n w =
     (let n_img = n ^ 2 div 2 in
      case size_at x 0 of
        Inl e \<Rightarrow> (Inl e, w)
      | Inr b \<Rightarrow>
          if b < n_img then (Inl (RuntimeError (required_msg n_img b)), w)
          else
            (let x = to_device x (device self) in
             case forward_pass lib self x w of
               (Inl e, w') \<Rightarrow> (Inl e, w')
             | (Inr outputs, w') \<Rightarrow>
            (case slice_to x n_img of
               Inl e \<Rightarrow> (Inl e, w')
             | Inr x \<Rightarrow>
            (case getitem outputs ''out_sample'' of
               Inl e \<Rightarrow> (Inl e, w')
             | Inr out_sample \<Rightarrow>
            (case slice_to out_sample n_img of
               Inl e \<Rightarrow> (Inl e, w')
             | Inr recons \<Rightarrow>
            (case stack2 (cpu x) (cpu recons) of
               Inl e \<Rightarrow> (Inl e, w')
             | Inr stacked \<Rightarrow>
            (case permute_10234 stacked of
               Inl e \<Rightarrow> (Inl e, w')
             | Inr permuted \<Rightarrow>
            (case size_at x 1 of
               Inl e \<Rightarrow> (Inl e, w')
             | Inr c \<Rightarrow>
            (case size_at x 2 of
               Inl e \<Rightarrow> (Inl e, w')
             | Inr h \<Rightarrow>
            (case size_at x 3 of
               Inl e \<Rightarrow> (Inl e, w')
             | Inr wd \<Rightarrow>
            (case reshape permuted [n ^ 2, c, h, wd] of
               Inl e \<Rightarrow> (Inl e, w')
             | Inr grid \<Rightarrow>
            (case img_grid_pad_value lib grid of
               Inl e \<Rightarrow> (Inl e, w')
             | Inr pad \<Rightarrow> save_image lib grid f n pad w'))))))))))))"

subsection \<open>additional_testing\<close>

definition additional_testing ::
  "'a torch \<Rightarrow> ('s, 'a) mnist_experiment \<Rightarrow> string \<Rightarrow> ('s, 'a) world
     \<Rightarrow> (py_error + unit) \<times> ('s, 'a) world" where
  "additional_testing lib self img_folder w =
     (let step = global_step (model self) (model_state w) in
      if \<not> dry_run (args self) then
        (let n = 8 in
         case sample_prior (model self) (model_state w) (n ^ 2) of
           (Inl e, s) \<Rightarrow> (Inl e, w\<lparr>model_state := s\<rparr>)
         | (Inr sample, s) \<Rightarrow>
             (let w1 = w\<lparr>model_state := s\<rparr>;
                  f = path_join img_folder (''sample_'' @ str_int step @ ''.png'')
              in
              case img_grid_pad_value lib sample of
                Inl e \<Rightarrow> (Inl e, w1)
              | Inr pad \<Rightarrow>
             (case save_image lib sample f n pad w1 of
                (Inl e, w2) \<Rightarrow> (Inl e, w2)
              | (Inr u, w2) \<Rightarrow>
             (case dataloaders_test self of
                [] \<Rightarrow> (Inl StopIteration, w2)
              | (x, _) # _ \<Rightarrow>
                  (let f = path_join img_folder
                             (''reconstruction_'' @ str_int step @ ''.png'')
                   in save_input_and_recons lib self x f n w2)))))
      else (Inr (), w))"

subsection \<open>Argument parsing and the run description\<close>

text \<open>Python's \<^verbatim>\<open>a % b\<close> on integers: the remainder has the sign of \<open>b\<close>, as \<open>mod\<close>
  on \<open>int\<close> has; a zero divisor raises.\<close>

definition py_mod :: "int \<Rightarrow> int \<Rightarrow> py_error + int" where
  "py_mod a b = (if b = 0 then Inl ZeroDivisionError else Inr (a mod b))"

text \<open>\<^verbatim>\<open>_parse_args\<close> (a name cannot begin with an underscore here): \<open>parsed\<close> is
  what \<^verbatim>\<open>parser.parse_args()\<close> gives for the command line at hand, an error when
  the parser itself exits. The interpreter runs with assertions enabled.\<close>

definition parse_args :: "(py_error + args) \<Rightarrow> py_error + args" where
  "parse_args parsed =
     (case parsed of
        Inl e \<Rightarrow> Inl e
      | Inr a \<Rightarrow>
          (case py_mod (loglikelihood_every a) (test_log_every a) of
             Inl e \<Rightarrow> Inl e
           | Inr r \<Rightarrow> (if r = 0 then Inr a else Inl AssertionError)))"

text \<open>\<^verbatim>\<open>_make_run_description\<close>.\<close>

definition make_run_description :: "args \<Rightarrow> string" where
  "make_run_description a =
     (let s = [];
          s = s @ ''seed'' @ str_int (seed a)
      in if length (additional_descr a) > 0 then s @ '','' @ additional_descr a else s)"

subsection \<open>The grid that stack, permute and reshape build\<close>

text \<open>The entries of the tensor that \<^verbatim>\<open>save_input_and_recons\<close> hands to
  \<^verbatim>\<open>save_image\<close>, written out: \<open>m\<close> is the number of pairs, \<open>r\<close> the number of
  entries of one image, \<open>d\<close> the entries of the stacked tensor.\<close>

definition grid_data :: "nat \<Rightarrow> nat \<Rightarrow> 'a list \<Rightarrow> 'a list" where
  "grid_data m r d =
     map (\<lambda>k. d ! ((((k div r) mod 2) * m + k div (2 * r)) * r + k mod r)) [0 ..< m * 2 * r]"

definition grid_of :: "nat \<Rightarrow> nat \<Rightarrow> nat \<Rightarrow> nat \<Rightarrow> 'a tensor \<Rightarrow> 'a tensor \<Rightarrow> 'a tensor" where
  "grid_of n c h wd x smp =
     \<lparr>shape = [n ^ 2, c, h, wd],
      data = grid_data (n ^ 2 div 2) (c * h * wd)
               (take (n ^ 2 div 2 * (c * h * wd)) (data x) @
                take (n ^ 2 div 2 * (c * h * wd)) (data smp)),
      dev = CPU\<rparr>"

section \<open>Example collaborators\<close>

text \<open>Concrete collaborators on which the theorems below are instantiated. The
  entries are real numbers. (The mean of an empty tensor is NaN in the library and
  has no counterpart here; the examples only average non-empty tensors.)\<close>

definition batch_len :: "'a tensor \<Rightarrow> nat" where
  "batch_len t = (case shape t of [] \<Rightarrow> 0 | b # _ \<Rightarrow> b)"

text \<open>The directory of a path, for paths without a trailing slash.\<close>

definition dirname :: "string \<Rightarrow> string" where
  "dirname p = rev (drop 1 (dropWhile (\<lambda>c. c \<noteq> CHR ''/'') (rev p)))"

text \<open>The example library refuses what the real calls refuse. The padding value is
  asked of a batch of images only: a tensor that is not 4-dimensional is refused,
  and images without rows or columns have no border to index. (Where the real
  function succeeds it answers black or white after the images' borders; the
  example answers 0 throughout, and no statement below rests on the value.) A
  grid is written only with a positive number of columns and of images, whose
  quotient the grid's layout needs, and only into a directory that exists: the
  working directory and \<^verbatim>\<open>out\<close>.\<close>

definition ex_pad_value :: "real tensor \<Rightarrow> py_error + real" where
  "ex_pad_value t =
     (case shape t of
        [k, c, h, w] \<Rightarrow> if h = 0 \<or> w = 0 then Inl IndexError else Inr 0
      | _ \<Rightarrow> Inl (CollaboratorError ''img_grid_pad_value: not a batch of images''))"

definition ex_save_image :: "real tensor \<Rightarrow> string \<Rightarrow> nat \<Rightarrow> real \<Rightarrow> py_error option" where
  "ex_save_image t f n p =
     (if n = 0 \<or> batch_len t = 0 then Some ZeroDivisionError
      else if dirname f \<notin> set [[], ''out''] then Some (FileNotFoundError f)
      else None)"

definition ex_torch :: "real torch" where
  "ex_torch =
     \<lparr>t_mean = (\<lambda>t. \<lparr>shape = [], data = [sum_list (data t) / real (length (data t))],
                       dev = dev t\<rparr>),
      t_neg = (\<lambda>t. t\<lparr>data := map uminus (data t)\<rparr>),
      img_grid_pad_value = ex_pad_value,
      tv_save_image = ex_save_image\<rparr>"

text \<open>A small variational model. Its reconstruction adds noise drawn from the
  generator state \<open>rng\<close>, which every draw advances; the weight is its only
  parameter.\<close>

record toy_state =
  weight :: real
  rng :: nat
  step :: int

definition per_example :: "real tensor \<Rightarrow> (nat \<Rightarrow> real) \<Rightarrow> real tensor" where
  "per_example x f = \<lparr>shape = [batch_len x], data = map f [0 ..< batch_len x], dev = dev x\<rparr>"

definition toy_output :: "toy_state \<Rightarrow> real tensor \<Rightarrow> real pydict" where
  "toy_output s x =
     [''sample'' \<mapsto> x\<lparr>data := map (\<lambda>v. weight s * v + real (rng s)) (data x)\<rparr>,
      ''mean'' \<mapsto> x\<lparr>data := map (\<lambda>v. weight s * v) (data x)\<rparr>,
      ''elbo'' \<mapsto> per_example x (\<lambda>i. - (real i + 3)),
      ''nll'' \<mapsto> per_example x (\<lambda>i. real i + 1),
      ''kl'' \<mapsto> per_example x (\<lambda>i. 2)]"

definition toy_model :: "(toy_state, real) model" where
  "toy_model =
     \<lparr>forward = (\<lambda>s x. (Inr (toy_output s x), s\<lparr>rng := Suc (rng s)\<rparr>)),
      sample_prior = (\<lambda>s k.
        (Inr \<lparr>shape = [k, 1, 1, 1], data = replicate k (real (rng s)), dev = CPU\<rparr>,
         s\<lparr>rng := Suc (rng s)\<rparr>)),
      global_step = step,
      parameters = (\<lambda>s. [\<lparr>shape = [], data = [weight s], dev = CPU\<rparr>])\<rparr>"

definition ex_args :: args where
  "ex_args =
     \<lparr>batch_size = 64, test_batch_size = 1000, seed = 54321, train_log_every = 1000,
      test_log_every = 1000, checkpoint_every = 10000, resume = [],
      loglikelihood_every = 50000, loglikelihood_samples = 100,
      additional_descr = [], dry_run = False\<rparr>"

text \<open>A batch of \<open>b\<close> one-pixel images, the \<open>i\<close>-th with grey value \<open>i\<close>.\<close>

definition pixels :: "nat \<Rightarrow> real tensor" where
  "pixels b = \<lparr>shape = [b, 1, 1, 1], data = map real [0 ..< b], dev = CPU\<rparr>"

definition labels :: "nat \<Rightarrow> real tensor" where
  "labels b = \<lparr>shape = [b], data = replicate b 0, dev = CPU\<rparr>"

definition ex_self :: "nat \<Rightarrow> (toy_state, real) mnist_experiment" where
  "ex_self b =
     \<lparr>args = ex_args, device = CPU, model = toy_model,
      dataloaders_test = [(pixels b, labels b)]\<rparr>"

definition ex_world :: "(toy_state, real) world" where
  "ex_world = \<lparr>model_state = \<lparr>weight = 2, rng = 0, step = 7\<rparr>, written = []\<rparr>"

text \<open>The same model with the noise switched off: its output is a function of the
  weight and the batch, and evaluating it changes nothing.\<close>

definition frozen_model :: "(toy_state, real) model" where
  "frozen_model = toy_model\<lparr>forward := (\<lambda>s x. (Inr (toy_output (s\<lparr>rng := 0\<rparr>) x), s))\<rparr>"

definition frozen_self :: "(toy_state, real) mnist_experiment" where
  "frozen_self = (ex_self 2)\<lparr>model := frozen_model\<rparr>"

section \<open>Properties\<close>

subsection \<open>Facts about the example collaborators\<close>

lemma toy_forward:
  "forward (model (ex_self b)) (model_state ex_world) (to_device x (device (ex_self b)))
     = (Inr (toy_output (model_state ex_world) (to_device x CPU)),
        (model_state ex_world)\<lparr>rng := Suc (rng (model_state ex_world))\<rparr>)"
  by (simp add: ex_self_def toy_model_def)

lemma toy_output_keys:
  "toy_output s x ''elbo'' = Some (per_example x (\<lambda>i. - (real i + 3)))"
  "toy_output s x ''nll'' = Some (per_example x (\<lambda>i. real i + 1))"
  "toy_output s x ''kl'' = Some (per_example x (\<lambda>i. 2))"
  "toy_output s x ''sample'' = Some (x\<lparr>data := map (\<lambda>v. weight s * v + real (rng s)) (data x)\<rparr>)"
  "toy_output s x ''mean'' = Some (x\<lparr>data := map (\<lambda>v. weight s * v) (data x)\<rparr>)"
  by (simp_all add: toy_output_def)

lemma per_example_pixels:
  "per_example (to_device (pixels 3) CPU) f = \<lparr>shape = [3], data = [f 0, f 1, f 2], dev = CPU\<rparr>"
  by (simp add: per_example_def batch_len_def pixels_def to_device_def eval_nat_numeral)

lemma shape_pixels: "shape (pixels b) = [b, 1, 1, 1]"
  by (simp add: pixels_def)


lemma toy_sample_shape:
  "shape ((to_device (pixels b) CPU)
            \<lparr>data := map (\<lambda>v. weight s * v + real (rng s)) (data (to_device (pixels b) CPU))\<rparr>)
     = shape (pixels b)"
  by (simp add: to_device_def)

lemma ex_library_accepts:
  assumes "0 < n" and "0 < k" and "dirname f \<in> set [[], ''out'']" and "shape g = [k, 1, 1, 1]"
  shows "\<exists>p. img_grid_pad_value ex_torch g = Inr p \<and> tv_save_image ex_torch g f n p = None"
  using assms
  by (simp add: ex_torch_def ex_pad_value_def ex_save_image_def batch_len_def)

subsection \<open>Tensors on devices\<close>

lemma to_device_idem: "to_device (to_device x d) d = to_device x d"
  by (simp add: to_device_def)

lemma shape_to_device: "shape (to_device x d) = shape x"
  by (simp add: to_device_def)

lemma data_to_device: "data (to_device x d) = data x"
  by (simp add: to_device_def)

lemma dev_to_device: "dev (to_device x d) = d"
  by (simp add: to_device_def)

lemmas device_simps = shape_to_device data_to_device dev_to_device cpu_def

subsection \<open>forward_pass\<close>

lemma forward_pass_to_device:
  "forward_pass lib self (to_device x (device self)) w = forward_pass lib self x w"
  by (simp add: forward_pass_def to_device_idem)

lemma forward_pass_world:
  assumes "forward_pass lib self x w = (res, w')"
  shows "w' = w\<lparr>model_state := snd (forward (model self) (model_state w) (to_device x (device self)))\<rparr>"
  using assms
  by (auto simp: forward_pass_def Let_def split: prod.splits sum.splits)

lemma forward_pass_complete:
  assumes "forward (model self) (model_state w) (to_device x (device self)) = (Inr out, s)"
    and "out ''sample'' = Some smp" and "out ''mean'' = Some mn" and "out ''elbo'' = Some e"
    and "out ''nll'' = Some nl" and "out ''kl'' = Some k"
  shows "\<exists>outputs. forward_pass lib self x w = (Inr outputs, w\<lparr>model_state := s\<rparr>)
           \<and> outputs ''out_sample'' = Some smp"
  using assms by (simp add: forward_pass_def Let_def getitem_def)

text \<open>
  Claim C1. Let the model return, for the batch moved to the device, an output that
  holds the per-example vectors under \<^verbatim>\<open>'elbo'\<close>, \<^verbatim>\<open>'nll'\<close> and \<^verbatim>\<open>'kl'\<close>. Then every
  record that \<^verbatim>\<open>forward_pass\<close> returns has \<^verbatim>\<open>'loss'\<close> equal to the negated mean of the
  ELBO vector, \<^verbatim>\<open>'elbo/elbo'\<close> equal to its mean, \<^verbatim>\<open>'elbo/recons'\<close> equal to the mean
  of the nll vector and \<^verbatim>\<open>'elbo/kl'\<close> equal to the mean of the kl vector; where
  negating twice gives the value back, \<^verbatim>\<open>'elbo/elbo'\<close> is the negation of \<^verbatim>\<open>'loss'\<close>.
  A record is returned whenever the output also holds \<^verbatim>\<open>'sample'\<close> and \<^verbatim>\<open>'mean'\<close>.
\<close>

theorem forward_pass_metrics:
  assumes out: "forward (model self) (model_state w) (to_device x (device self)) = (Inr out, s)"
    and elbo: "out ''elbo'' = Some elbo_sep"
    and nll: "out ''nll'' = Some nll"
    and kl: "out ''kl'' = Some kl"
  shows "(out ''sample'' \<noteq> None \<and> out ''mean'' \<noteq> None \<longrightarrow>
           (\<exists>r. forward_pass lib self x w = (Inr r, w\<lparr>model_state := s\<rparr>)))
       \<and> (\<forall>r w'. forward_pass lib self x w = (Inr r, w') \<longrightarrow>
             r ''loss'' = Some (t_neg lib (t_mean lib elbo_sep))
           \<and> r ''elbo/elbo'' = Some (t_mean lib elbo_sep)
           \<and> r ''elbo/recons'' = Some (t_mean lib nll)
           \<and> r ''elbo/kl'' = Some (t_mean lib kl)
           \<and> ((\<forall>v. t_neg lib (t_neg lib v) = v) \<longrightarrow>
                 (\<exists>l. r ''loss'' = Some l \<and> r ''elbo/elbo'' = Some (t_neg lib l))))"
  using assms
  by (auto simp: forward_pass_def Let_def getitem_def split: option.splits)

theorem forward_pass_metrics_witness:
  "\<exists>r w'. forward_pass ex_torch (ex_self 3) (pixels 3) ex_world = (Inr r, w')
     \<and> r ''loss'' = Some \<lparr>shape = [], data = [4], dev = CPU\<rparr>
     \<and> r ''elbo/elbo'' = Some \<lparr>shape = [], data = [- 4], dev = CPU\<rparr>
     \<and> r ''elbo/recons'' = Some \<lparr>shape = [], data = [2], dev = CPU\<rparr>
     \<and> r ''elbo/kl'' = Some \<lparr>shape = [], data = [2], dev = CPU\<rparr>
     \<and> r ''elbo/elbo'' = Some (t_neg ex_torch \<lparr>shape = [], data = [4], dev = CPU\<rparr>)"
proof -
  let ?s = "model_state ex_world"
  let ?x = "to_device (pixels 3) CPU"
  have present: "toy_output ?s ?x ''sample'' \<noteq> None \<and> toy_output ?s ?x ''mean'' \<noteq> None"
    by (simp add: toy_output_keys)
  have invol: "\<forall>v. t_neg ex_torch (t_neg ex_torch v) = v"
    by (simp add: ex_torch_def comp_def)
  note inst = forward_pass_metrics
    [OF toy_forward toy_output_keys(1) toy_output_keys(2) toy_output_keys(3),
      where lib = ex_torch]
  from inst present obtain r where
    r: "forward_pass ex_torch (ex_self 3) (pixels 3) ex_world
          = (Inr r, ex_world\<lparr>model_state := ?s\<lparr>rng := Suc (rng ?s)\<rparr>\<rparr>)"
    by blast
  with inst invol have
    "r ''loss'' = Some (t_neg ex_torch (t_mean ex_torch (per_example ?x (\<lambda>i. - (real i + 3)))))"
    "r ''elbo/elbo'' = Some (t_mean ex_torch (per_example ?x (\<lambda>i. - (real i + 3))))"
    "r ''elbo/recons'' = Some (t_mean ex_torch (per_example ?x (\<lambda>i. real i + 1)))"
    "r ''elbo/kl'' = Some (t_mean ex_torch (per_example ?x (\<lambda>i. 2)))"
    by blast+
  then have "r ''loss'' = Some \<lparr>shape = [], data = [4], dev = CPU\<rparr>
     \<and> r ''elbo/elbo'' = Some \<lparr>shape = [], data = [- 4], dev = CPU\<rparr>
     \<and> r ''elbo/recons'' = Some \<lparr>shape = [], data = [2], dev = CPU\<rparr>
     \<and> r ''elbo/kl'' = Some \<lparr>shape = [], data = [2], dev = CPU\<rparr>
     \<and> r ''elbo/elbo'' = Some (t_neg ex_torch \<lparr>shape = [], data = [4], dev = CPU\<rparr>)"
    by (simp add: per_example_pixels ex_torch_def)
  with r show ?thesis by blast
qed

text \<open>
  Claim C4. For a batch of \<open>b\<close> examples and a model output that holds all its fields,
  the ELBO vector with one value per example, \<^verbatim>\<open>forward_pass\<close> returns a record whose
  \<^verbatim>\<open>'elbo_sep'\<close> is that very vector, not reduced: it has \<open>b\<close> entries.
\<close>

theorem forward_pass_elbo_sep:
  assumes batch: "size_at x 0 = Inr b"
    and out: "forward (model self) (model_state w) (to_device x (device self)) = (Inr out, s)"
    and fields: "out ''sample'' = Some smp" "out ''mean'' = Some mn" "out ''elbo'' = Some elbo_sep"
      "out ''nll'' = Some nll" "out ''kl'' = Some kl"
    and per_example: "shape elbo_sep = [b]" "wf_tensor elbo_sep"
  shows "\<exists>r. forward_pass lib self x w = (Inr r, w\<lparr>model_state := s\<rparr>)
           \<and> r ''elbo_sep'' = Some elbo_sep
           \<and> shape elbo_sep = [b] \<and> length (data elbo_sep) = b"
proof -
  have "length (data elbo_sep) = b"
    using per_example by (simp add: wf_tensor_def numel_def)
  moreover have "\<exists>r. forward_pass lib self x w = (Inr r, w\<lparr>model_state := s\<rparr>)
                   \<and> r ''elbo_sep'' = Some elbo_sep"
    using out fields by (simp add: forward_pass_def Let_def getitem_def)
  ultimately show ?thesis using per_example(1) by blast
qed

theorem forward_pass_elbo_sep_witness:
  "\<exists>r w'. forward_pass ex_torch (ex_self 3) (pixels 3) ex_world = (Inr r, w')
     \<and> r ''elbo_sep'' = Some \<lparr>shape = [3], data = [- 3, - 4, - 5], dev = CPU\<rparr>"
proof -
  let ?s = "model_state ex_world"
  let ?x = "to_device (pixels 3) CPU"
  let ?e = "per_example ?x (\<lambda>i. - (real i + 3))"
  have batch: "size_at (pixels 3) 0 = Inr 3"
    by (simp add: size_at_def pixels_def)
  have e: "?e = \<lparr>shape = [3], data = [- 3, - 4, - 5], dev = CPU\<rparr>"
    by (simp add: per_example_pixels)
  have one_each: "shape ?e = [3]" "wf_tensor ?e"
    by (simp_all add: per_example_pixels wf_tensor_def numel_def)
  from forward_pass_elbo_sep
    [OF batch toy_forward toy_output_keys(4) toy_output_keys(5) toy_output_keys(1)
        toy_output_keys(2) toy_output_keys(3) one_each, where lib = ex_torch]
  show ?thesis unfolding e by blast
qed

text \<open>
  Claim C7, as stated, fails for a model that draws random numbers when it is
  evaluated, as a variational autoencoder does for its \<^verbatim>\<open>'sample'\<close>: the example
  model, called twice on the same batch with the same parameters, returns two
  different records.
\<close>

theorem forward_pass_stochastic_counterexample:
  "parameters (model (ex_self 2))
       (model_state (snd (forward_pass ex_torch (ex_self 2) (pixels 2) ex_world)))
     = parameters (model (ex_self 2)) (model_state ex_world)
   \<and> fst (forward_pass ex_torch (ex_self 2) (pixels 2)
            (snd (forward_pass ex_torch (ex_self 2) (pixels 2) ex_world)))
     \<noteq> fst (forward_pass ex_torch (ex_self 2) (pixels 2) ex_world)"
proof -
  let ?w1 = "snd (forward_pass ex_torch (ex_self 2) (pixels 2) ex_world)"
  have first: "\<exists>r. fst (forward_pass ex_torch (ex_self 2) (pixels 2) ex_world) = Inr r
      \<and> r ''out_sample'' = Some \<lparr>shape = [2, 1, 1, 1], data = [0, 2], dev = CPU\<rparr>"
    by (simp add: forward_pass_def Let_def getitem_def ex_self_def ex_world_def toy_model_def
        toy_output_def pixels_def to_device_def eval_nat_numeral)
  have w1: "?w1 = \<lparr>model_state = \<lparr>weight = 2, rng = 1, step = 7\<rparr>, written = []\<rparr>"
    by (simp add: forward_pass_def Let_def getitem_def ex_self_def ex_world_def toy_model_def
        toy_output_def)
  have second: "\<exists>r. fst (forward_pass ex_torch (ex_self 2) (pixels 2) ?w1) = Inr r
      \<and> r ''out_sample'' = Some \<lparr>shape = [2, 1, 1, 1], data = [1, 3], dev = CPU\<rparr>"
    unfolding w1
    by (simp add: forward_pass_def Let_def getitem_def ex_self_def toy_model_def
        toy_output_def pixels_def to_device_def eval_nat_numeral)
  have "parameters (model (ex_self 2)) (model_state ?w1)
          = parameters (model (ex_self 2)) (model_state ex_world)"
    unfolding w1 by (simp add: ex_self_def toy_model_def ex_world_def)
  moreover from first second
  have "fst (forward_pass ex_torch (ex_self 2) (pixels 2) ?w1)
          \<noteq> fst (forward_pass ex_torch (ex_self 2) (pixels 2) ex_world)"
    by auto
  ultimately show ?thesis by simp
qed

text \<open>
  Claim C7, amended. \<^verbatim>\<open>forward_pass\<close> keeps no state of its own and has no effect
  besides that of the one model evaluation it makes, on the batch moved to the
  device: it writes no file, it leaves the model in the state in which that
  evaluation leaves it, and its result is determined by the result of that
  evaluation. So for a model whose evaluation changes nothing and is a function of
  its parameters and the batch, \<^verbatim>\<open>forward_pass\<close> changes nothing and two invocations
  with the same batch and the same parameters return equal results.
\<close>

theorem forward_pass_relative_purity:
  "written (snd (forward_pass lib self x w)) = written w
   \<and> model_state (snd (forward_pass lib self x w))
       = snd (forward (model self) (model_state w) (to_device x (device self)))
   \<and> (fst (forward (model self) (model_state w) (to_device x (device self)))
         = fst (forward (model self) (model_state v) (to_device x (device self)))
       \<longrightarrow> fst (forward_pass lib self x w) = fst (forward_pass lib self x v))
   \<and> ((\<forall>s s' t. parameters (model self) s = parameters (model self) s'
                  \<longrightarrow> forward (model self) s t = (fst (forward (model self) s' t), s))
        \<and> parameters (model self) (model_state w) = parameters (model self) (model_state v)
       \<longrightarrow> snd (forward_pass lib self x w) = w
         \<and> fst (forward_pass lib self x w) = fst (forward_pass lib self x v))"
proof -
  let ?m = "\<lambda>u. forward (model self) (model_state u) (to_device x (device self))"
  have world: "snd (forward_pass lib self x u) = u\<lparr>model_state := snd (?m u)\<rparr>" for u
    using forward_pass_world [of lib self x u] by (cases "forward_pass lib self x u") simp
  have result: "fst (forward_pass lib self x w) = fst (forward_pass lib self x v)"
    if "fst (?m w) = fst (?m v)"
    using that
    by (cases "?m w"; cases "?m v") (auto simp: forward_pass_def Let_def split: sum.splits)
  have pure: "snd (forward_pass lib self x w) = w
         \<and> fst (forward_pass lib self x w) = fst (forward_pass lib self x v)"
    if det: "\<forall>s s' t. parameters (model self) s = parameters (model self) s'
                  \<longrightarrow> forward (model self) s t = (fst (forward (model self) s' t), s)"
      and same: "parameters (model self) (model_state w) = parameters (model self) (model_state v)"
  proof -
    from det same have eq: "?m w = (fst (?m v), model_state w)"
      by blast
    then have "snd (?m w) = model_state w" "fst (?m w) = fst (?m v)"
      by simp_all
    then have "snd (forward_pass lib self x w) = w"
      using world [of w] by simp
    moreover have "fst (forward_pass lib self x w) = fst (forward_pass lib self x v)"
      using result \<open>fst (?m w) = fst (?m v)\<close> by blast
    ultimately show ?thesis by blast
  qed
  have frame: "written (snd (forward_pass lib self x w)) = written w"
    using world [of w] by simp
  have state: "model_state (snd (forward_pass lib self x w)) = snd (?m w)"
    using world [of w] by simp
  from frame state result pure show ?thesis by blast
qed

theorem forward_pass_relative_purity_witness:
  "snd (forward_pass ex_torch frozen_self (pixels 2) ex_world) = ex_world
   \<and> fst (forward_pass ex_torch frozen_self (pixels 2) ex_world)
       = fst (forward_pass ex_torch frozen_self (pixels 2)
                \<lparr>model_state = \<lparr>weight = 2, rng = 5, step = 9\<rparr>, written = []\<rparr>)"
proof -
  let ?v = "\<lparr>model_state = \<lparr>weight = 2, rng = 5, step = 9\<rparr>, written = []\<rparr> :: (toy_state, real) world"
  have det: "\<forall>s s' t. parameters (model frozen_self) s = parameters (model frozen_self) s'
                  \<longrightarrow> forward (model frozen_self) s t
                        = (fst (forward (model frozen_self) s' t), s)"
    by (simp add: frozen_self_def frozen_model_def toy_model_def toy_output_def)
  have same: "parameters (model frozen_self) (model_state ex_world)
                = parameters (model frozen_self) (model_state ?v)"
    by (simp add: frozen_self_def frozen_model_def toy_model_def ex_world_def)
  from forward_pass_relative_purity [of ex_torch frozen_self "pixels 2" ex_world ?v] det same
  show ?thesis by blast
qed

subsection \<open>Index arithmetic of the grid\<close>












subsection \<open>save_input_and_recons\<close>

lemma save_small_batch:
  assumes "size_at x 0 = Inr b" and "b < n ^ 2 div 2"
  shows "save_input_and_recons lib self x f n w
           = (Inl (RuntimeError (required_msg (n ^ 2 div 2) b)), w)"
  using assms by (simp add: save_input_and_recons_def)

lemma save_char:
  assumes x: "shape x = [b, c, h, wd]"
    and big: "n ^ 2 div 2 \<le> b"
    and fp: "forward_pass lib self x w = (Inr outputs, w1)"
    and smp: "outputs ''out_sample'' = Some smp"
    and shp: "shape smp = [b', c, h, wd]" "n ^ 2 div 2 \<le> b'"
    and fits: "n ^ 2 * (c * h * wd) = n ^ 2 div 2 * 2 * (c * h * wd)"
  shows "save_input_and_recons lib self x f n w =
           (case img_grid_pad_value lib (grid_of n c h wd x smp) of
              Inl e \<Rightarrow> (Inl e, w1)
            | Inr p \<Rightarrow> save_image lib (grid_of n c h wd x smp) f n p w1)"
  using assms
  by (simp add: save_input_and_recons_def Let_def size_at_def slice_to_def getitem_def
      stack2_def permute_10234_def reshape_def numel_def min_absorb1 forward_pass_to_device
      grid_of_def grid_data_def device_simps mult.assoc cong: sum.case_cong)


lemma save_image_ok:
  assumes "save_image lib t f n p w = (Inr u, w')"
  shows "tv_save_image lib t f n p = None
       \<and> w' = w\<lparr>written := written w @ [\<lparr>fname = f, imgs = t, nrow = n, pad_value = p\<rparr>]\<rparr>"
  using assms by (auto simp: save_image_def split: option.splits)

lemma save_image_error:
  assumes "save_image lib t f n p w = (Inl e, w')"
  shows "tv_save_image lib t f n p = Some e \<and> w' = w"
  using assms by (auto simp: save_image_def split: option.splits)

lemma save_writes_one:
  assumes "save_input_and_recons lib self x f n w = (Inr u, w')"
  shows "\<exists>g p. img_grid_pad_value lib g = Inr p \<and> tv_save_image lib g f n p = None
             \<and> written w' = written w @ [\<lparr>fname = f, imgs = g, nrow = n, pad_value = p\<rparr>]"
  using assms
  by (auto simp: save_input_and_recons_def Let_def
      split: sum.splits prod.splits if_splits
      dest!: forward_pass_world save_image_ok)

lemma save_error_writes_none:
  assumes "save_input_and_recons lib self x f n w = (Inl e, w')"
  shows "written w' = written w"
  using assms
  by (auto simp: save_input_and_recons_def Let_def
      split: sum.splits prod.splits if_splits
      dest!: forward_pass_world save_image_error)

lemma shape_grid_of: "shape (grid_of n c h wd x smp) = [n ^ 2, c, h, wd]"
  by (simp add: grid_of_def)












subsection \<open>additional_testing\<close>

text \<open>
  Claim C8. With \<^verbatim>\<open>args.dry_run\<close> set, \<^verbatim>\<open>additional_testing\<close> returns at once and
  leaves everything as it was: no file is written, whatever the model's step counter
  and whatever batches the test loader holds.
\<close>

theorem dry_run_writes_nothing:
  assumes "dry_run (args self)"
  shows "additional_testing lib self img_folder w = (Inr (), w)
       \<and> written (snd (additional_testing lib self img_folder w)) = written w"
  using assms by (simp add: additional_testing_def)

theorem dry_run_writes_nothing_witness:
  "additional_testing ex_torch ((ex_self 40)\<lparr>args := ex_args\<lparr>dry_run := True\<rparr>\<rparr>) ''out'' ex_world
     = (Inr (), ex_world)
   \<and> written (snd (additional_testing ex_torch
        ((ex_self 40)\<lparr>args := ex_args\<lparr>dry_run := True\<rparr>\<rparr>) ''out'' ex_world)) = []"
proof -
  have dry: "dry_run (args ((ex_self 40)\<lparr>args := ex_args\<lparr>dry_run := True\<rparr>\<rparr>))"
    by simp
  from dry_run_writes_nothing
    [OF dry, where lib = ex_torch and img_folder = "''out''" and w = ex_world]
  show ?thesis by (simp add: ex_world_def)
qed

text \<open>
  Claim C9, as stated, fails when the first test batch is too small: with 31
  examples the invocation, not a dry run, writes the sample file and then raises,
  so it has written one file, not two.
\<close>

theorem additional_testing_small_batch_counterexample:
  "\<not> dry_run (args (ex_self 31))
   \<and> fst (additional_testing ex_torch (ex_self 31) ''out'' ex_world)
       = Inl (RuntimeError
           ''32 data points required, but given batch has size 31. Please use a larger batch.'')
   \<and> map fname (written (snd (additional_testing ex_torch (ex_self 31) ''out'' ex_world)))
       = [''out/sample_7.png'']"
proof -
  have strs: "str_int 32 = ''32''" "str_int 31 = ''31''" "str_int 7 = ''7''"
    by (simp_all add: str_int_def str_nat.simps)
  have size: "size_at (pixels 31) 0 = Inr 31"
    by (simp add: size_at_def pixels_def)
  have small: "(31::nat) < 8 ^ 2 div 2" by simp
  show ?thesis
    by (simp add: additional_testing_def Let_def ex_self_def ex_args_def ex_world_def
        toy_model_def save_small_batch [OF size small] required_msg_def strs
        save_image_def path_join_def ex_torch_def ex_pad_value_def ex_save_image_def
        batch_len_def dirname_def)
qed

text \<open>
  Claim C9, amended. Every invocation of \<^verbatim>\<open>additional_testing\<close> outside dry-run mode
  that returns has written exactly two files, with \<^verbatim>\<open>nrow = 8\<close>: first
  \<^verbatim>\<open>sample_<step>.png\<close>, then \<^verbatim>\<open>reconstruction_<step>.png\<close>, both joined to the
  caller's directory, where \<^verbatim>\<open><step>\<close> is the model's \<^verbatim>\<open>global_step\<close> as it was when
  the invocation began. An invocation that raises has written at most one file. The
  invocation returns when the model draws the prior samples, \<^verbatim>\<open>img_grid_pad_value\<close>
  and \<^verbatim>\<open>save_image\<close> accept them under the first name, the first test batch is a
  tensor of at least 32 images, the model's output for it holds all its fields,
  the sample with the shape of the batch, and the two library calls accept every
  grid of 64 sub-images of that image shape under the second name.
\<close>

theorem additional_testing_files:
  assumes live: "\<not> dry_run (args self)"
  shows "(\<forall>u w'. additional_testing lib self img_folder w = (Inr u, w') \<longrightarrow>
            (\<exists>sample p1 grid p2.
               written w' = written w @
                 [\<lparr>fname = path_join img_folder
                             (''sample_'' @ str_int (global_step (model self) (model_state w))
                                @ ''.png''),
                   imgs = sample, nrow = 8, pad_value = p1\<rparr>,
                  \<lparr>fname = path_join img_folder
                             (''reconstruction_''
                                @ str_int (global_step (model self) (model_state w)) @ ''.png''),
                   imgs = grid, nrow = 8, pad_value = p2\<rparr>]
             \<and> img_grid_pad_value lib sample = Inr p1
             \<and> img_grid_pad_value lib grid = Inr p2))
       \<and> (\<forall>e w'. additional_testing lib self img_folder w = (Inl e, w') \<longrightarrow>
            length (written w') \<le> length (written w) + 1)
       \<and> (sample_prior (model self) (model_state w) 64 = (Inr prior, s1)
            \<and> img_grid_pad_value lib prior = Inr p
            \<and> tv_save_image lib prior
                 (path_join img_folder
                    (''sample_'' @ str_int (global_step (model self) (model_state w)) @ ''.png''))
                 8 p = None
            \<and> dataloaders_test self = (x, y) # rest
            \<and> shape x = [b, c, h, wd] \<and> 32 \<le> b
            \<and> forward (model self) s1 (to_device x (device self)) = (Inr out, s2)
            \<and> out ''sample'' = Some smp \<and> out ''mean'' = Some mn \<and> out ''elbo'' = Some e
            \<and> out ''nll'' = Some nl \<and> out ''kl'' = Some k
            \<and> shape smp = shape x
            \<and> (\<forall>g. shape g = [64, c, h, wd] \<longrightarrow>
                  (\<exists>q. img_grid_pad_value lib g = Inr q
                     \<and> tv_save_image lib g
                          (path_join img_folder
                             (''reconstruction_''
                                @ str_int (global_step (model self) (model_state w)) @ ''.png''))
                          8 q = None))
          \<longrightarrow> (\<exists>w'. additional_testing lib self img_folder w = (Inr (), w')))"
proof -
  let ?run = "additional_testing lib self img_folder w"
  let ?step = "global_step (model self) (model_state w)"
  let ?f1 = "path_join img_folder (''sample_'' @ str_int ?step @ ''.png'')"
  let ?f2 = "path_join img_folder (''reconstruction_'' @ str_int ?step @ ''.png'')"
  have two: "\<exists>sample p1 grid p2. written w' = written w @
                 [\<lparr>fname = ?f1, imgs = sample, nrow = 8, pad_value = p1\<rparr>,
                  \<lparr>fname = ?f2, imgs = grid, nrow = 8, pad_value = p2\<rparr>]
             \<and> img_grid_pad_value lib sample = Inr p1
             \<and> img_grid_pad_value lib grid = Inr p2"
    if ok: "?run = (Inr u, w')" for u w'
  proof -
    from ok live obtain sample s1 p1 w2 x y rest where
      prior: "sample_prior (model self) (model_state w) 64 = (Inr sample, s1)"
      and pad: "img_grid_pad_value lib sample = Inr p1"
      and first: "save_image lib sample ?f1 8 p1 (w\<lparr>model_state := s1\<rparr>) = (Inr (), w2)"
      and loader: "dataloaders_test self = (x, y) # rest"
      and save: "save_input_and_recons lib self x ?f2 8 w2 = (Inr u, w')"
      by (auto simp: additional_testing_def Let_def
          split: prod.splits sum.splits list.splits)
    from save_image_ok [OF first]
    have w2: "written w2 = written w @ [\<lparr>fname = ?f1, imgs = sample, nrow = 8, pad_value = p1\<rparr>]"
      by simp
    from save_writes_one [OF save] w2 pad show ?thesis
      by auto
  qed
  have one: "length (written w') \<le> length (written w) + 1"
    if err: "?run = (Inl e, w')" for e w'
  proof (cases "sample_prior (model self) (model_state w) 64")
    case (Pair res s1)
    show ?thesis
    proof (cases res)
      case (Inl e')
      with Pair err live show ?thesis
        by (auto simp: additional_testing_def)
    next
      case (Inr sample)
      note prior = Pair [unfolded Inr]
      show ?thesis
      proof (cases "img_grid_pad_value lib sample")
        case (Inl e')
        with prior err live show ?thesis
          by (auto simp: additional_testing_def Let_def)
      next
        case pad: (Inr p1)
        obtain r2 w2 where first: "save_image lib sample ?f1 8 p1 (w\<lparr>model_state := s1\<rparr>) = (r2, w2)"
          by (cases "save_image lib sample ?f1 8 p1 (w\<lparr>model_state := s1\<rparr>)")
        show ?thesis
        proof (cases r2)
          case (Inl e')
          with first save_image_error [of lib sample ?f1 8 p1 "w\<lparr>model_state := s1\<rparr>" e' w2]
            prior pad err live
          show ?thesis
            by (auto simp: additional_testing_def Let_def)
        next
          case (Inr u)
          with first save_image_ok [of lib sample ?f1 8 p1 "w\<lparr>model_state := s1\<rparr>" u w2]
          have w2: "length (written w2) = length (written w) + 1"
            by simp
          show ?thesis
          proof (cases "dataloaders_test self")
            case Nil
            with prior pad first Inr err live w2 show ?thesis
              by (auto simp: additional_testing_def Let_def)
          next
            case (Cons xy rest)
            obtain x y where xy: "xy = (x, y)" by (cases xy)
            from prior pad first Inr Cons xy err live
            have "save_input_and_recons lib self x ?f2 8 w2 = (Inl e, w')"
              by (simp add: additional_testing_def Let_def)
            from save_error_writes_none [OF this] w2 show ?thesis
              by simp
          qed
        qed
      qed
    qed
  qed
  have runs: "\<exists>w'. ?run = (Inr (), w')"
    if prior: "sample_prior (model self) (model_state w) 64 = (Inr prior, s1)"
      and pad: "img_grid_pad_value lib prior = Inr p"
      and accepted: "tv_save_image lib prior ?f1 8 p = None"
      and loader: "dataloaders_test self = (x, y) # rest"
      and batch: "shape x = [b, c, h, wd]" and big: "32 \<le> b"
      and out: "forward (model self) s1 (to_device x (device self)) = (Inr out, s2)"
      and fields: "out ''sample'' = Some smp" "out ''mean'' = Some mn" "out ''elbo'' = Some e"
        "out ''nll'' = Some nl" "out ''kl'' = Some k"
      and recon: "shape smp = shape x"
      and lib: "\<forall>g. shape g = [64, c, h, wd] \<longrightarrow>
                  (\<exists>q. img_grid_pad_value lib g = Inr q \<and> tv_save_image lib g ?f2 8 q = None)"
  proof -
    let ?w2 = "w\<lparr>model_state := s1,
                  written := written w @
                    [\<lparr>fname = ?f1, imgs = prior, nrow = 8, pad_value = p\<rparr>]\<rparr>"
    let ?g = "grid_of 8 c h wd x smp"
    have first: "save_image lib prior ?f1 8 p (w\<lparr>model_state := s1\<rparr>) = (Inr (), ?w2)"
      using accepted by (simp add: save_image_def)
    have out': "forward (model self) (model_state ?w2) (to_device x (device self)) = (Inr out, s2)"
      using out by simp
    from forward_pass_complete [OF out' fields] obtain outputs where
      fp: "forward_pass lib self x ?w2 = (Inr outputs, ?w2\<lparr>model_state := s2\<rparr>)"
      and smp: "outputs ''out_sample'' = Some smp"
      by blast
    have big': "(8::nat) ^ 2 div 2 \<le> b" using big by simp
    have shp: "shape smp = [b, c, h, wd]" using recon batch by simp
    have fits: "(8::nat) ^ 2 * (c * h * wd) = 8 ^ 2 div 2 * 2 * (c * h * wd)" by simp
    have "shape ?g = [64, c, h, wd]"
      by (simp add: shape_grid_of)
    with lib obtain q where
      "img_grid_pad_value lib ?g = Inr q" and "tv_save_image lib ?g ?f2 8 q = None"
      by blast
    with save_char [OF batch big' fp smp shp big' fits, of ?f2]
    have "\<exists>w'. save_input_and_recons lib self x ?f2 8 ?w2 = (Inr (), w')"
      by (simp add: save_image_def)
    with prior pad first loader live show ?thesis
      by (simp add: additional_testing_def Let_def)
  qed
  from two one runs show ?thesis by blast
qed

theorem additional_testing_files_witness:
  "(\<exists>w'. additional_testing ex_torch (ex_self 32) ''out'' ex_world = (Inr (), w')
      \<and> map fname (written w') = [''out/sample_7.png'', ''out/reconstruction_7.png'']
      \<and> map nrow (written w') = [8, 8])
   \<and> (\<exists>err w'. additional_testing ex_torch (ex_self 32) ''missing'' ex_world = (Inl err, w')
         \<and> written w' = [])"
proof -
  let ?s0 = "model_state ex_world"
  let ?s1 = "?s0\<lparr>rng := Suc (rng ?s0)\<rparr>"
  let ?x = "to_device (pixels 32) CPU"
  let ?prior = "\<lparr>shape = [64, 1, 1, 1], data = replicate 64 (real (rng ?s0)), dev = CPU\<rparr>"
  let ?smp = "?x\<lparr>data := map (\<lambda>v. weight ?s1 * v + real (rng ?s1)) (data ?x)\<rparr>"
  have live: "\<not> dry_run (args (ex_self 32))"
    by (simp add: ex_self_def ex_args_def)
  note inst = additional_testing_files [OF live, where lib = ex_torch and img_folder = "''out''"
      and w = ex_world]
  have str7: "str_int 7 = ''7''"
    by (simp add: str_int_def str_nat.simps)
  have step: "str_int (global_step (model (ex_self 32)) ?s0) = ''7''"
    by (simp add: ex_self_def toy_model_def ex_world_def str7)
  have prior: "sample_prior (model (ex_self 32)) ?s0 64 = (Inr ?prior, ?s1)"
    by (simp add: ex_self_def toy_model_def)
  have pad: "img_grid_pad_value ex_torch ?prior = Inr 0"
    by (simp add: ex_torch_def ex_pad_value_def)
  have first: "tv_save_image ex_torch ?prior
                 (path_join ''out''
                    (''sample_'' @ str_int (global_step (model (ex_self 32)) ?s0) @ ''.png''))
                 8 0 = None"
    unfolding step
    by (simp add: ex_torch_def ex_save_image_def batch_len_def dirname_def path_join_def)
  have loader: "dataloaders_test (ex_self 32) = (pixels 32, labels 32) # []"
    by (simp add: ex_self_def)
  have out: "forward (model (ex_self 32)) ?s1 (to_device (pixels 32) (device (ex_self 32)))
               = (Inr (toy_output ?s1 ?x), ?s1\<lparr>rng := Suc (rng ?s1)\<rparr>)"
    by (simp add: ex_self_def toy_model_def)
  have big: "(32::nat) \<le> 32" by simp
  have second: "\<forall>g. shape g = [64, 1, 1, 1] \<longrightarrow>
                  (\<exists>q. img_grid_pad_value ex_torch g = Inr q
                     \<and> tv_save_image ex_torch g
                          (path_join ''out''
                             (''reconstruction_''
                                @ str_int (global_step (model (ex_self 32)) ?s0) @ ''.png''))
                          8 q = None)"
    unfolding step
    by (auto intro!: ex_library_accepts simp: dirname_def path_join_def)
  have "\<exists>w'. additional_testing ex_torch (ex_self 32) ''out'' ex_world = (Inr (), w')"
  proof (rule inst [THEN conjunct2, THEN conjunct2, THEN mp])
    show "sample_prior (model (ex_self 32)) ?s0 64 = (Inr ?prior, ?s1)
        \<and> img_grid_pad_value ex_torch ?prior = Inr 0
        \<and> tv_save_image ex_torch ?prior
             (path_join ''out''
                (''sample_'' @ str_int (global_step (model (ex_self 32)) ?s0) @ ''.png''))
             8 0 = None
        \<and> dataloaders_test (ex_self 32) = (pixels 32, labels 32) # []
        \<and> shape (pixels 32) = [32, 1, 1, 1] \<and> (32::nat) \<le> 32
        \<and> forward (model (ex_self 32)) ?s1 (to_device (pixels 32) (device (ex_self 32)))
            = (Inr (toy_output ?s1 ?x), ?s1\<lparr>rng := Suc (rng ?s1)\<rparr>)
        \<and> toy_output ?s1 ?x ''sample'' = Some ?smp
        \<and> toy_output ?s1 ?x ''mean'' = Some (?x\<lparr>data := map (\<lambda>v. weight ?s1 * v) (data ?x)\<rparr>)
        \<and> toy_output ?s1 ?x ''elbo'' = Some (per_example ?x (\<lambda>i. - (real i + 3)))
        \<and> toy_output ?s1 ?x ''nll'' = Some (per_example ?x (\<lambda>i. real i + 1))
        \<and> toy_output ?s1 ?x ''kl'' = Some (per_example ?x (\<lambda>i. 2))
        \<and> shape ?smp = shape (pixels 32)
        \<and> (\<forall>g. shape g = [64, 1, 1, 1] \<longrightarrow>
                  (\<exists>q. img_grid_pad_value ex_torch g = Inr q
                     \<and> tv_save_image ex_torch g
                          (path_join ''out''
                             (''reconstruction_''
                                @ str_int (global_step (model (ex_self 32)) ?s0) @ ''.png''))
                          8 q = None))"
      by (intro conjI prior pad first loader shape_pixels big out toy_output_keys
          toy_sample_shape second)
  qed
  then obtain w' where
    run: "additional_testing ex_torch (ex_self 32) ''out'' ex_world = (Inr (), w')"
    by blast
  from inst [THEN conjunct1, rule_format, OF run] obtain sample p1 grid p2 where
    "written w' = written ex_world @
       [\<lparr>fname = path_join ''out''
                   (''sample_'' @ str_int (global_step (model (ex_self 32)) ?s0) @ ''.png''),
         imgs = sample, nrow = 8, pad_value = p1\<rparr>,
        \<lparr>fname = path_join ''out''
                   (''reconstruction_'' @ str_int (global_step (model (ex_self 32)) ?s0)
                      @ ''.png''),
         imgs = grid, nrow = 8, pad_value = p2\<rparr>]"
    by blast
  then have "map fname (written w') = [''out/sample_7.png'', ''out/reconstruction_7.png'']
     \<and> map nrow (written w') = [8, 8]"
    unfolding step by (simp add: ex_world_def path_join_def)
  with run have good: "\<exists>w'. additional_testing ex_torch (ex_self 32) ''out'' ex_world = (Inr (), w')
      \<and> map fname (written w') = [''out/sample_7.png'', ''out/reconstruction_7.png'']
      \<and> map nrow (written w') = [8, 8]"
    by simp
  have bad: "\<exists>err w'. additional_testing ex_torch (ex_self 32) ''missing'' ex_world = (Inl err, w')
         \<and> written w' = []"
    by (simp add: additional_testing_def Let_def ex_self_def ex_args_def ex_world_def
        toy_model_def save_image_def path_join_def ex_torch_def ex_pad_value_def
        ex_save_image_def batch_len_def dirname_def str7)
  from good bad show ?thesis by simp
qed

subsection \<open>The startup check of the arguments\<close>

text \<open>
  Claim C10. When \<^verbatim>\<open>test_log_every\<close> is zero, the check
  \<^verbatim>\<open>loglikelihood_every % test_log_every == 0\<close> cannot be evaluated: the remainder
  raises ZeroDivisionError before the assertion can fail, whatever
  \<^verbatim>\<open>loglikelihood_every\<close> is.
\<close>

theorem parse_args_zero_division:
  assumes "test_log_every a = 0"
  shows "py_mod (loglikelihood_every a) (test_log_every a) = Inl ZeroDivisionError
       \<and> parse_args (Inr a) = Inl ZeroDivisionError"
  using assms by (simp add: parse_args_def py_mod_def)

theorem parse_args_zero_division_witness:
  "parse_args (Inr (ex_args\<lparr>test_log_every := 0\<rparr>)) = Inl ZeroDivisionError
   \<and> parse_args (Inr (ex_args\<lparr>test_log_every := 0, loglikelihood_every := 0\<rparr>))
       = Inl ZeroDivisionError"
proof -
  have z: "test_log_every (ex_args\<lparr>test_log_every := 0\<rparr>) = 0"
    "test_log_every (ex_args\<lparr>test_log_every := 0, loglikelihood_every := 0\<rparr>) = 0"
    by simp_all
  from parse_args_zero_division [OF z(1)] parse_args_zero_division [OF z(2)]
  show ?thesis by blast
qed

text \<open>
  Claim C3, as stated, fails where both options are zero: 0 is a multiple of 0, yet
  the check raises.
\<close>

theorem parse_args_zero_multiple_counterexample:
  "test_log_every (ex_args\<lparr>loglikelihood_every := 0, test_log_every := 0\<rparr>)
     dvd loglikelihood_every (ex_args\<lparr>loglikelihood_every := 0, test_log_every := 0\<rparr>)
   \<and> parse_args (Inr (ex_args\<lparr>loglikelihood_every := 0, test_log_every := 0\<rparr>))
       = Inl ZeroDivisionError"
  by (simp add: parse_args_def py_mod_def)

text \<open>
  Claim C3, amended. Given the namespace the parser returns, \<^verbatim>\<open>_parse_args\<close> raises
  ZeroDivisionError when \<^verbatim>\<open>test_log_every\<close> is zero; otherwise it returns the
  namespace when \<^verbatim>\<open>loglikelihood_every\<close> is an exact multiple of \<^verbatim>\<open>test_log_every\<close>
  and fails the assertion when it is not. With 100 and 30 the assertion fails, with
  100 and 50 the namespace is returned. An error of the parser itself is passed on.
\<close>

theorem parse_args_check:
  "parse_args (Inr a) =
     (if test_log_every a = 0 then Inl ZeroDivisionError
      else if test_log_every a dvd loglikelihood_every a then Inr a
      else Inl AssertionError)
   \<and> parse_args (Inl e) = Inl e
   \<and> parse_args (Inr (a\<lparr>loglikelihood_every := 100, test_log_every := 30\<rparr>)) = Inl AssertionError
   \<and> parse_args (Inr (a\<lparr>loglikelihood_every := 100, test_log_every := 50\<rparr>))
       = Inr (a\<lparr>loglikelihood_every := 100, test_log_every := 50\<rparr>)"
  by (auto simp: parse_args_def py_mod_def dvd_eq_mod_eq_0)

theorem parse_args_check_witness:
  "parse_args (Inr ex_args) = Inr ex_args
   \<and> parse_args (Inr (ex_args\<lparr>loglikelihood_every := 100, test_log_every := 30\<rparr>))
       = Inl AssertionError
   \<and> parse_args (Inr (ex_args\<lparr>loglikelihood_every := 100, test_log_every := - 50\<rparr>))
       = Inr (ex_args\<lparr>loglikelihood_every := 100, test_log_every := - 50\<rparr>)"
proof -
  have "parse_args (Inr ex_args) = Inr ex_args"
    using parse_args_check [of ex_args] by (simp add: ex_args_def)
  moreover have "parse_args (Inr (ex_args\<lparr>loglikelihood_every := 100, test_log_every := 30\<rparr>))
       = Inl AssertionError"
    using parse_args_check [of ex_args] by blast
  moreover have "parse_args (Inr (ex_args\<lparr>loglikelihood_every := 100, test_log_every := - 50\<rparr>))
       = Inr (ex_args\<lparr>loglikelihood_every := 100, test_log_every := - 50\<rparr>)"
    using parse_args_check [of "ex_args\<lparr>loglikelihood_every := 100, test_log_every := - 50\<rparr>"]
    by simp
  ultimately show ?thesis by blast
qed

subsection \<open>Decimal numerals\<close>

lemma digit_of_nth:
  assumes "d < 10"
  shows "digit_of (''0123456789'' ! d) = Some d"
  using assms by (auto simp: digit_of_def less_Suc_eq eval_nat_numeral)

lemma digit_of_Some:
  assumes "digit_of ch = Some d"
  shows "d < 10 \<and> ''0123456789'' ! d = ch"
  using assms by (auto simp: digit_of_def split: if_splits)

lemma digits_value_snoc:
  "digits_value acc (cs @ [ch]) =
     (case digits_value acc cs of
        None \<Rightarrow> None
      | Some v \<Rightarrow> (case digit_of ch of None \<Rightarrow> None | Some d \<Rightarrow> Some (10 * v + d)))"
  by (induction cs arbitrary: acc) (auto split: option.splits)

lemma digits_value_str_nat: "digits_value 0 (str_nat n) = Some n"
proof (induction n rule: str_nat.induct)
  case (1 n)
  show ?case
  proof (cases "n < 10")
    case True
    then show ?thesis
      by (subst str_nat.simps) (simp add: digit_of_nth)
  next
    case False
    then have "digits_value 0 (str_nat (n div 10)) = Some (n div 10)"
      using "1.IH" by simp
    moreover have "digit_of (''0123456789'' ! (n mod 10)) = Some (n mod 10)"
      by (rule digit_of_nth) simp
    ultimately show ?thesis
      using False by (subst str_nat.simps) (simp add: digits_value_snoc)
  qed
qed

lemma str_nat_nonempty: "str_nat n \<noteq> []"
  by (subst str_nat.simps) simp

lemma str_nat_zero: "str_nat n = ''0'' \<longleftrightarrow> n = 0"
proof
  assume "str_nat n = ''0''"
  then have "digits_value 0 ''0'' = Some n"
    using digits_value_str_nat [of n] by simp
  then show "n = 0" by (simp add: digit_of_def)
next
  assume "n = 0"
  then show "str_nat n = ''0''" by (simp add: str_nat.simps)
qed

lemma str_nat_small:
  assumes "n < 10"
  shows "str_nat n = [''0123456789'' ! n]"
  using assms by (subst str_nat.simps) simp

lemma str_nat_large:
  assumes "\<not> n < 10"
  shows "str_nat n = str_nat (n div 10) @ [''0123456789'' ! (n mod 10)]"
  using assms by (subst str_nat.simps) simp

lemma hd_str_nat_zero:
  assumes "hd (str_nat n) = CHR ''0''"
  shows "n = 0"
  using assms
proof (induction n rule: str_nat.induct)
  case (1 n)
  show ?case
  proof (cases "n < 10")
    case True
    with "1.prems" have "''0123456789'' ! n = CHR ''0''"
      by (simp add: str_nat_small)
    then have "digit_of (''0123456789'' ! n) = Some 0"
      by (simp add: digit_of_def)
    with True show ?thesis
      by (simp add: digit_of_nth)
  next
    case False
    have "hd (str_nat n) = hd (str_nat (n div 10))"
      using str_nat_nonempty [of "n div 10"] by (simp add: str_nat_large [OF False])
    with "1.prems" "1.IH" False have "n div 10 = 0"
      by simp
    with False show ?thesis by simp
  qed
qed

lemma canonical_str_nat: "canonical_digits (str_nat n)"
proof -
  have "str_nat n = ''0''" if "hd (str_nat n) = CHR ''0''"
    using hd_str_nat_zero [OF that] by (simp add: str_nat_zero)
  then show ?thesis
    using str_nat_nonempty [of n] by (simp add: canonical_digits_def)
qed

lemma canonical_digits_unique:
  assumes "canonical_digits ds" and "digits_value 0 ds = Some n"
  shows "ds = str_nat n"
  using assms
proof (induction ds arbitrary: n rule: rev_induct)
  case Nil
  then show ?case by (simp add: canonical_digits_def)
next
  case (snoc ch cs)
  from snoc.prems(2) obtain v d where
    v: "digits_value 0 cs = Some v" and d: "digit_of ch = Some d" and n: "n = 10 * v + d"
    by (auto simp: digits_value_snoc split: option.splits)
  from digit_of_Some [OF d] have small: "d < 10" and ch: "''0123456789'' ! d = ch"
    by simp_all
  show ?case
  proof (cases "cs = []")
    case True
    with v n small ch show ?thesis
      by (simp add: str_nat_small)
  next
    case False
    then have "hd (cs @ [ch]) = hd cs" by simp
    moreover have "cs @ [ch] \<noteq> ''0''" using False by simp
    ultimately have lead: "hd cs \<noteq> CHR ''0''"
      using snoc.prems(1) by (auto simp: canonical_digits_def)
    with False have "canonical_digits cs"
      by (simp add: canonical_digits_def)
    from snoc.IH [OF this v] have cs: "cs = str_nat v" .
    have "v \<noteq> 0"
    proof
      assume "v = 0"
      with cs have "cs = ''0''" by (simp add: str_nat_zero)
      with lead show False by simp
    qed
    with n small have "\<not> n < 10" "n div 10 = v" "n mod 10 = d"
      by simp_all
    with cs ch show ?thesis
      by (simp add: str_nat_large)
  qed
qed

lemma digit_of_minus: "digit_of CHR ''-'' = None"
  by (simp add: digit_of_def)

lemma str_nat_no_minus: "hd (str_nat n) \<noteq> CHR ''-''"
proof
  assume minus: "hd (str_nat n) = CHR ''-''"
  obtain ch cs where split: "str_nat n = ch # cs"
    using str_nat_nonempty [of n] by (cases "str_nat n") auto
  with minus have "digits_value 0 (str_nat n) = None"
    by (simp add: digit_of_minus)
  then show False by (simp add: digits_value_str_nat)
qed

lemma numeral_value_str_int: "numeral_value (str_int i) = Some i"
proof (cases "i < 0")
  case True
  then have "str_nat (nat (- i)) \<noteq> ''0''"
    by (simp add: str_nat_zero)
  with True show ?thesis
    by (simp add: numeral_value_def str_int_def canonical_str_nat digits_value_str_nat)
next
  case False
  obtain ch cs where split: "str_nat (nat i) = ch # cs"
    using str_nat_nonempty [of "nat i"] by (cases "str_nat (nat i)") auto
  with str_nat_no_minus [of "nat i"] have "ch \<noteq> CHR ''-''" by simp
  moreover have "canonical_digits (ch # cs)" "digits_value 0 (ch # cs) = Some (nat i)"
    using canonical_str_nat [of "nat i"] digits_value_str_nat [of "nat i"] split by simp_all
  ultimately show ?thesis
    using False split by (simp add: numeral_value_def str_int_def)
qed

lemma numeral_value_unique:
  assumes "numeral_value s = Some i"
  shows "s = str_int i"
proof (cases s)
  case Nil
  with assms show ?thesis by (simp add: numeral_value_def)
next
  case (Cons ch cs)
  show ?thesis
  proof (cases "ch = CHR ''-''")
    case True
    with assms Cons obtain v where
      can: "canonical_digits cs" and nz: "cs \<noteq> ''0''"
      and v: "digits_value 0 cs = Some v" and i: "i = - int v"
      by (auto simp: numeral_value_def split: if_splits)
    from canonical_digits_unique [OF can v] have cs: "cs = str_nat v" .
    with nz have "v \<noteq> 0" by (auto simp: str_nat_zero)
    with i cs Cons True show ?thesis
      by (simp add: str_int_def)
  next
    case False
    with assms Cons obtain v where
      can: "canonical_digits s" and v: "digits_value 0 s = Some v" and i: "i = int v"
      by (auto simp: numeral_value_def split: if_splits)
    from canonical_digits_unique [OF can v] i show ?thesis
      by (simp add: str_int_def)
  qed
qed

subsection \<open>The run description\<close>

text \<open>
  Claim C6. The run description is \<^verbatim>\<open>seed\<close>, then the decimal numeral of the seed,
  then a comma and the additional description when that is not empty. The numeral
  is the one text that denotes the seed: digits without a superfluous zero, with a
  minus sign for a negative seed. The description depends on nothing but the seed
  and the additional description. For seed 54321 it is \<^verbatim>\<open>seed54321\<close> with an empty
  description and \<^verbatim>\<open>seed54321,foo\<close> with the description \<^verbatim>\<open>foo\<close>; for the seeds 7, 0
  and -12 the numerals are \<^verbatim>\<open>7\<close>, \<^verbatim>\<open>0\<close> and \<^verbatim>\<open>-12\<close>.
\<close>

theorem make_run_description_value:
  "(\<exists>ds. numeral_value ds = Some (seed a)
         \<and> make_run_description a =
             ''seed'' @ ds @ (if additional_descr a = [] then [] else '','' @ additional_descr a))
   \<and> (\<forall>ds. numeral_value ds = Some (seed a) \<longrightarrow>
         make_run_description a =
           ''seed'' @ ds @ (if additional_descr a = [] then [] else '','' @ additional_descr a))
   \<and> make_run_description (a\<lparr>seed := 54321, additional_descr := []\<rparr>) = ''seed54321''
   \<and> make_run_description (a\<lparr>seed := 54321, additional_descr := ''foo''\<rparr>) = ''seed54321,foo''
   \<and> make_run_description (a\<lparr>seed := 7, additional_descr := ''foo''\<rparr>) = ''seed7,foo''
   \<and> make_run_description (a\<lparr>seed := 0, additional_descr := []\<rparr>) = ''seed0''
   \<and> make_run_description (a\<lparr>seed := - 12, additional_descr := []\<rparr>) = ''seed-12''
   \<and> (\<forall>a'. seed a' = seed a \<and> additional_descr a' = additional_descr a \<longrightarrow>
         make_run_description a' = make_run_description a)"
proof (intro conjI allI impI)
  have form: "make_run_description a =
      ''seed'' @ str_int (seed a) @
        (if additional_descr a = [] then [] else '','' @ additional_descr a)" for a
    by (simp add: make_run_description_def)
  have texts: "str_int 54321 = ''54321''" "str_int 7 = ''7''" "str_int 0 = ''0''"
    "str_int (- 12) = ''-12''"
    by (simp_all add: str_int_def str_nat.simps)
  show "\<exists>ds. numeral_value ds = Some (seed a)
         \<and> make_run_description a =
             ''seed'' @ ds @ (if additional_descr a = [] then [] else '','' @ additional_descr a)"
    using form [of a] numeral_value_str_int [of "seed a"] by (intro exI conjI)
  show "make_run_description a =
           ''seed'' @ ds @ (if additional_descr a = [] then [] else '','' @ additional_descr a)"
    if "numeral_value ds = Some (seed a)" for ds
    unfolding numeral_value_unique [OF that] by (rule form)
  show "make_run_description (a\<lparr>seed := 54321, additional_descr := []\<rparr>) = ''seed54321''"
    by (simp add: form texts)
  show "make_run_description (a\<lparr>seed := 54321, additional_descr := ''foo''\<rparr>) = ''seed54321,foo''"
    by (simp add: form texts)
  show "make_run_description (a\<lparr>seed := 7, additional_descr := ''foo''\<rparr>) = ''seed7,foo''"
    by (simp add: form texts)
  show "make_run_description (a\<lparr>seed := 0, additional_descr := []\<rparr>) = ''seed0''"
    by (simp add: form texts)
  show "make_run_description (a\<lparr>seed := - 12, additional_descr := []\<rparr>) = ''seed-12''"
    by (simp add: form texts)
  show "make_run_description a' = make_run_description a"
    if "seed a' = seed a \<and> additional_descr a' = additional_descr a" for a'
    using that by (simp add: form)
qed

theorem make_run_description_value_witness:
  "numeral_value ''54321'' = Some 54321
   \<and> numeral_value ''-12'' = Some (- 12)
   \<and> numeral_value ''007'' = None
   \<and> make_run_description ex_args = ''seed54321''
   \<and> make_run_description (ex_args\<lparr>additional_descr := ''foo''\<rparr>) = ''seed54321,foo''
   \<and> make_run_description (ex_args\<lparr>seed := - 12\<rparr>) = ''seed-12''
   \<and> make_run_description (ex_args\<lparr>batch_size := 1\<rparr>) = make_run_description ex_args"
proof (intro conjI)
  show v1: "numeral_value ''54321'' = Some 54321"
    by (simp add: numeral_value_def canonical_digits_def digit_of_def)
  show v2: "numeral_value ''-12'' = Some (- 12)"
    by (simp add: numeral_value_def canonical_digits_def digit_of_def)
  show "numeral_value ''007'' = None"
    by (simp add: numeral_value_def canonical_digits_def)
  have plain: "numeral_value ''54321'' = Some (seed ex_args)"
    using v1 by (simp add: ex_args_def)
  have foo: "numeral_value ''54321'' = Some (seed (ex_args\<lparr>additional_descr := ''foo''\<rparr>))"
    using v1 by (simp add: ex_args_def)
  have neg: "numeral_value ''-12'' = Some (seed (ex_args\<lparr>seed := - 12\<rparr>))"
    using v2 by simp
  note unique = make_run_description_value [THEN conjunct2, THEN conjunct1, rule_format]
  show "make_run_description ex_args = ''seed54321''"
    using unique [OF plain] by (simp add: ex_args_def)
  show "make_run_description (ex_args\<lparr>additional_descr := ''foo''\<rparr>) = ''seed54321,foo''"
    using unique [OF foo] by simp
  show "make_run_description (ex_args\<lparr>seed := - 12\<rparr>) = ''seed-12''"
    using unique [OF neg] by (simp add: ex_args_def)
  have same: "seed (ex_args\<lparr>batch_size := 1\<rparr>) = seed ex_args
      \<and> additional_descr (ex_args\<lparr>batch_size := 1\<rparr>) = additional_descr ex_args"
    by simp
  show "make_run_description (ex_args\<lparr>batch_size := 1\<rparr>) = make_run_description ex_args"
    by (rule make_run_description_value [of ex_args, THEN conjunct2, THEN conjunct2,
          THEN conjunct2, THEN conjunct2, THEN conjunct2, THEN conjunct2, THEN conjunct2,
          rule_format, OF same])
qed

end
